theory Spec2Isabelle
  imports Main "HOL-Library.Char_ord" "HOL-Library.List_Lexorder" "HOL-Library.Sublist"
begin

section \<open>Data model (core/src/types.ts)\<close>

text \<open>
  A parsed JSON document, as \<^verbatim>\<open>JSON.parse\<close> returns it. An object is the list of its
  properties; reading a property takes the binding found first. Numbers are modelled as
  integers. Strings are lists of 8-bit characters.
\<close>

datatype json =
    JNull
  | JBool bool
  | JNum int
  | JStr string
  | JArr "json list"
  | JObj "(string \<times> json) list"

datatype Severity = Error | Warning | Note

record Location =
  filePath :: string
  internalPath :: "string option"
  jsonPointer :: "string option"
  line :: "int option"
  column :: "int option"

record Finding =
  ruleId :: string
  ruleName :: string
  severity :: Severity
  message :: string
  location :: Location
  source :: string
  details :: "(string \<times> json option) list option"

record LintConfig =
  paths :: "string list"
  exclude :: "string list option"
  failOn :: "Severity list"
  templateVersion :: "string option"
  templateDir :: "string option"
  basePath :: "string option"
  engines :: "(string \<times> bool) list option"

record Summary =
  errors :: nat
  warnings :: nat
  notes_ :: nat
  filesScanned :: nat
  filesWithFindings :: nat

text \<open>
  A validation engine: its name, its capability check and its \<^verbatim>\<open>validate\<close>. An engine
  object may keep private state between calls (the template engine caches its index), so
  \<^verbatim>\<open>validate\<close> takes the engine's state and returns the new one. A call that throws or
  rejects is \<open>Inl\<close> of the failure message
  (\<^verbatim>\<open>error instanceof Error ? error.message : String(error)\<close>).
\<close>

record 's ValidationEngine =
  name :: string
  description :: string
  canValidate :: "string \<Rightarrow> bool"
  validate :: "'s \<Rightarrow> string \<Rightarrow> LintConfig \<Rightarrow> (string + Finding list) \<times> 's"
  engineState :: 's

section \<open>Runtime library\<close>

text \<open>
  The calls into Node and into the packages \<^verbatim>\<open>fast-glob\<close> and \<^verbatim>\<open>adm-zip\<close>. What they
  return depends on the machine, so they are fields of a record that every operation
  takes as an argument. A call that can throw returns a sum or an option.
\<close>

record GlobOptions =
  globCwd :: "string option"
  globIgnore :: "string list"
  followSymbolicLinks :: bool

record Runtime =
  envTemplateDir :: "string option"  \<comment> \<open>\<^verbatim>\<open>process.env.AAS_CI_LINT_TEMPLATE_DIR\<close>\<close>
  cwd :: string
  homedir :: string
  tmpdir :: string
  pathJoin :: "string list \<Rightarrow> string"
  pathResolve :: "string \<Rightarrow> string \<Rightarrow> string"
  pathIsAbsolute :: "string \<Rightarrow> bool"
  pathRelative :: "string \<Rightarrow> string \<Rightarrow> string"
  pathBasename :: "string \<Rightarrow> string \<Rightarrow> string"
  fastGlob :: "string list \<Rightarrow> GlobOptions \<Rightarrow> string list"
  isDirectory :: "string \<Rightarrow> bool"  \<comment> \<open>\<^verbatim>\<open>statSync(p).isDirectory()\<close>, false when it throws\<close>
  readJson :: "string \<Rightarrow> json option"  \<comment> \<open>\<^verbatim>\<open>JSON.parse(await fs.readFile(p))\<close>, \<open>None\<close> when either throws\<close>
  access :: "string \<Rightarrow> bool"  \<comment> \<open>\<^verbatim>\<open>fs.access\<close> resolves\<close>
  readdir :: "string \<Rightarrow> string list option"
  mkdtemp :: "string \<Rightarrow> string + string"  \<comment> \<open>\<open>Inl\<close> the failure message\<close>
  extractAllTo :: "string \<Rightarrow> string \<Rightarrow> string option"  \<comment> \<open>\<open>Some\<close> the failure message\<close>

text \<open>\<^verbatim>\<open>String.prototype.toLowerCase\<close>, on ASCII letters.\<close>

definition toLowerChar :: "char \<Rightarrow> char" where
  "toLowerChar c =
     (case map_of (zip ''ABCDEFGHIJKLMNOPQRSTUVWXYZ'' ''abcdefghijklmnopqrstuvwxyz'') c of
        Some l \<Rightarrow> l
      | None \<Rightarrow> c)"

definition toLowerCase :: "string \<Rightarrow> string" where
  "toLowerCase s = map toLowerChar s"

text \<open>
  \<^verbatim>\<open>path.extname\<close> (POSIX): the part of the last path component from its last dot on;
  empty when the component has no dot, when its last dot is its first character, and for
  the component \<^verbatim>\<open>..\<close>. Slashes at the end of the path are skipped.
\<close>

fun lastComponent :: "string \<Rightarrow> bool \<Rightarrow> string \<Rightarrow> string" where
  "lastComponent cur afterSlash [] = cur"
| "lastComponent cur afterSlash (c # cs) =
     (if c = CHR ''/'' then lastComponent cur True cs
      else if afterSlash then lastComponent [c] False cs
      else lastComponent (cur @ [c]) False cs)"

fun fromLastDot :: "string \<Rightarrow> string option" where
  "fromLastDot [] = None"
| "fromLastDot (c # cs) =
     (case fromLastDot cs of
        Some e \<Rightarrow> Some e
      | None \<Rightarrow> if c = CHR ''.'' then Some (c # cs) else None)"

definition extname :: "string \<Rightarrow> string" where
  "extname path =
     (case fromLastDot (lastComponent [] False path) of
        None \<Rightarrow> []
      | Some e \<Rightarrow>
          if lastComponent [] False path = ''..'' \<or>
             length e = length (lastComponent [] False path)
          then [] else e)"

text \<open>Reading a property: \<open>None\<close> is \<^verbatim>\<open>undefined\<close>. Only an object has the properties read here.\<close>

fun getProp :: "json \<Rightarrow> string \<Rightarrow> json option" where
  "getProp (JObj kvs) k = map_of kvs k"
| "getProp _ k = None"

fun isArray :: "json option \<Rightarrow> bool" where
  "isArray (Some (JArr xs)) = True"
| "isArray _ = False"

text \<open>
  \<^verbatim>\<open>String.prototype.localeCompare\<close> is the collation of the runtime's locale. A collation
  compares two strings by their sort keys, so the model takes the function from a string
  to its sort key as a parameter; nothing is assumed about it.
\<close>

definition localeCompare :: "(string \<Rightarrow> 'k::linorder) \<Rightarrow> string \<Rightarrow> string \<Rightarrow> int" where
  "localeCompare collationKey a b =
     (if collationKey a < collationKey b then - 1
      else if collationKey a = collationKey b then 0 else 1)"

text \<open>
  \<^verbatim>\<open>Array.prototype.sort\<close> with a comparator: a stable sort. The element \<open>x\<close> goes before
  the first element \<open>y\<close> with \<open>cmp x y \<le> 0\<close>.
\<close>

fun sortInsert :: "('a \<Rightarrow> 'a \<Rightarrow> int) \<Rightarrow> 'a \<Rightarrow> 'a list \<Rightarrow> 'a list" where
  "sortInsert cmp x [] = [x]"
| "sortInsert cmp x (y # ys) =
     (if cmp x y \<le> 0 then x # y # ys else y # sortInsert cmp x ys)"

fun arraySort :: "('a \<Rightarrow> 'a \<Rightarrow> int) \<Rightarrow> 'a list \<Rightarrow> 'a list" where
  "arraySort cmp [] = []"
| "arraySort cmp (x # xs) = sortInsert cmp x (arraySort cmp xs)"

section \<open>Orchestrator (core/src/orchestrator.ts)\<close>

definition MAX_SAFE_INTEGER :: int where
  "MAX_SAFE_INTEGER = 9007199254740991"

definition lineOrMax :: "Finding \<Rightarrow> int" where
  "lineOrMax f = (case line (location f) of None \<Rightarrow> MAX_SAFE_INTEGER | Some l \<Rightarrow> l)"

text \<open>The comparator of \<^verbatim>\<open>normalizeFindings\<close>.\<close>

definition findingCompare :: "(string \<Rightarrow> 'k::linorder) \<Rightarrow> Finding \<Rightarrow> Finding \<Rightarrow> int" where
  "findingCompare collationKey a b =
     (let fileCompare = localeCompare collationKey (filePath (location a)) (filePath (location b))
      in if fileCompare \<noteq> 0 then fileCompare
         else let aLine = lineOrMax a; bLine = lineOrMax b
              in if aLine \<noteq> bLine then aLine - bLine
                 else localeCompare collationKey (ruleId a) (ruleId b))"

text \<open>
  The deduplication key. The source serialises the five fields with \<^verbatim>\<open>JSON.stringify\<close>,
  which leaves an undefined property out and escapes strings, so two keys are equal
  exactly when the five fields are; the model keeps the tuple.
\<close>

type_synonym findingKey = "string \<times> string option \<times> int option \<times> string \<times> string"

definition findingKey :: "Finding \<Rightarrow> findingKey" where
  "findingKey f =
     (filePath (location f), jsonPointer (location f), line (location f), ruleId f, message f)"

fun deduplicate :: "findingKey list \<Rightarrow> Finding list \<Rightarrow> Finding list" where
  "deduplicate seen [] = []"
| "deduplicate seen (f # fs) =
     (if findingKey f \<notin> set seen then f # deduplicate (findingKey f # seen) fs
      else deduplicate seen fs)"

definition normalizeFindings :: "(string \<Rightarrow> 'k::linorder) \<Rightarrow> Finding list \<Rightarrow> Finding list" where
  "normalizeFindings collationKey findings =
     (let sorted = arraySort (findingCompare collationKey) findings
      in deduplicate [] sorted)"

definition quote :: string where
  "quote = [CHR 0x22]"

definition engineError :: "string \<Rightarrow> string \<Rightarrow> string \<Rightarrow> Finding" where
  "engineError engineName failure file =
     \<lparr>ruleId = engineName @ ''/internal/engine-error'',
      ruleName = ''Engine Error'',
      severity = Error,
      message = ''Validation engine '' @ quote @ engineName @ quote @ '' failed: '' @ failure,
      location = \<lparr>filePath = file, internalPath = None, jsonPointer = None, line = None,
                   column = None\<rparr>,
      source = engineName,
      details = None\<rparr>"

text \<open>One engine on one file: the body of the \<^verbatim>\<open>map\<close> callback, with its \<^verbatim>\<open>try\<close>/\<^verbatim>\<open>catch\<close>.\<close>

definition runEngine ::
  "'s ValidationEngine \<Rightarrow> string \<Rightarrow> LintConfig \<Rightarrow> Finding list \<times> 's ValidationEngine" where
  "runEngine engine file config =
     (case validate engine (engineState engine) file config of
        (Inr engineFindings, s) \<Rightarrow> (engineFindings, engine\<lparr>engineState := s\<rparr>)
      | (Inl failure, s) \<Rightarrow>
          ([engineError (name engine) failure file], engine\<lparr>engineState := s\<rparr>))"

text \<open>
  \<^verbatim>\<open>validateFile\<close>: the findings of the applicable engines, in registration order, and
  the engines after the calls. Every engine object is registered once, so a call changes
  the state of its own engine only.
\<close>

definition validateFile ::
  "string \<Rightarrow> 's ValidationEngine list \<Rightarrow> LintConfig
     \<Rightarrow> Finding list \<times> 's ValidationEngine list" where
  "validateFile file engineList config =
     (let applicableEngines = filter (\<lambda>e. canValidate e file) engineList;
          results = map (\<lambda>engine. fst (runEngine engine file config)) applicableEngines
      in (concat results,
          map (\<lambda>e. if canValidate e file then snd (runEngine e file config) else e) engineList))"

definition computeSummary :: "Finding list \<Rightarrow> string list \<Rightarrow> Summary" where
  "computeSummary findings scanned =
     \<lparr>errors = length (filter (\<lambda>f. severity f = Error) findings),
      warnings = length (filter (\<lambda>f. severity f = Warning) findings),
      notes_ = length (filter (\<lambda>f. severity f = Note) findings),
      filesScanned = length scanned,
      filesWithFindings = length (remdups (map (\<lambda>f. filePath (location f)) findings))\<rparr>"

section \<open>Discovery (core/src/discovery.ts)\<close>

definition SUPPORTED_EXTENSIONS :: "string list" where
  "SUPPORTED_EXTENSIONS = [''.aasx'', ''.json'', ''.xml'']"

definition aasKeys :: "string list" where
  "aasKeys = [''assetAdministrationShells'', ''submodels'', ''conceptDescriptions'']"

text \<open>
  \<^verbatim>\<open>looksLikeAasJson\<close>. Reading a property of \<^verbatim>\<open>null\<close> throws, and the \<^verbatim>\<open>catch\<close> answers
  false, as it does when the file cannot be read or parsed.
\<close>

definition looksLikeAasJson :: "Runtime \<Rightarrow> string \<Rightarrow> bool" where
  "looksLikeAasJson rt file =
     (case readJson rt file of
        None \<Rightarrow> False
      | Some parsed \<Rightarrow>
          if parsed = JNull then False
          else list_ex (\<lambda>key. isArray (getProp parsed key)) aasKeys)"

record DiscoveryOptions =
  optBasePath :: string
  optExclude :: "string list option"
  optFollowSymlinks :: "bool option"

definition discoverFiles ::
  "(string \<Rightarrow> 'k::linorder) \<Rightarrow> Runtime \<Rightarrow> string list \<Rightarrow> DiscoveryOptions \<Rightarrow> string list" where
  "discoverFiles collationKey rt patterns options =
     (let excluded = (case optExclude options of None \<Rightarrow> [] | Some e \<Rightarrow> e);
          followSymlinks = (case optFollowSymlinks options of None \<Rightarrow> False | Some b \<Rightarrow> b);
          normalizedPatterns = map (\<lambda>pattern. if pathIsAbsolute rt pattern then pattern
                                              else pattern) patterns;
          files = fastGlob rt normalizedPatterns
                    \<lparr>globCwd = Some (optBasePath options),
                     globIgnore = excluded @ [''**/node_modules/**'', ''**/.git/**''],
                     followSymbolicLinks = followSymlinks\<rparr>;
          aasFiles = filter (\<lambda>file. toLowerCase (extname file) \<in> set SUPPORTED_EXTENSIONS) files;
          validatedFiles =
            filter (\<lambda>file. if toLowerCase (extname file) = ''.json''
                           then looksLikeAasJson rt file else True) aasFiles
      in arraySort (localeCompare collationKey) validatedFiles)"

text \<open>\<^verbatim>\<open>unpackAasx\<close>: the directory the archive was extracted into, or the failure.\<close>

definition unpackAasx :: "Runtime \<Rightarrow> string \<Rightarrow> string \<Rightarrow> string + string" where
  "unpackAasx rt aasxPath targetDir =
     (let extractPath = pathJoin rt [targetDir, pathBasename rt aasxPath ''.aasx'']
      in case extractAllTo rt aasxPath extractPath of
           Some failure \<Rightarrow> Inl failure
         | None \<Rightarrow> Inr extractPath)"

definition endsWith :: "string \<Rightarrow> string \<Rightarrow> bool" where
  "endsWith s e = suffix e s"

definition findAasEnvironmentInAasx :: "Runtime \<Rightarrow> string \<Rightarrow> string option" where
  "findAasEnvironmentInAasx rt unpackedDir =
     (let candidates = [pathJoin rt [unpackedDir, ''aasx'', ''aas-environment.json''],
                        pathJoin rt [unpackedDir, ''aasx'', ''aas-environment.xml'']]
      in case find (access rt) candidates of
           Some candidate \<Rightarrow> Some candidate
         | None \<Rightarrow>
             (let aasxDir = pathJoin rt [unpackedDir, ''aasx'']
              in case readdir rt aasxDir of
                   None \<Rightarrow> None
                 | Some names \<Rightarrow>
                     (case find (\<lambda>f. endsWith f ''.json'' \<or> endsWith f ''.xml'') names of
                        Some envFile \<Rightarrow> Some (pathJoin rt [aasxDir, envFile])
                      | None \<Rightarrow> None)))"

section \<open>The run (Orchestrator.lint)\<close>

definition engineEnabled :: "LintConfig \<Rightarrow> string \<Rightarrow> bool" where
  "engineEnabled config engineName =
     (case engines config of
        None \<Rightarrow> True
      | Some engineConfig \<Rightarrow> map_of engineConfig engineName \<noteq> Some False)"

text \<open>The loop over the discovered files, each with all engines.\<close>

fun validateFiles ::
  "string list \<Rightarrow> 's ValidationEngine list \<Rightarrow> LintConfig \<Rightarrow> Finding list" where
  "validateFiles [] activeEngines config = []"
| "validateFiles (file # files) activeEngines config =
     (let (fileFindings, enginesAfter) = validateFile file activeEngines config
      in fileFindings @ validateFiles files enginesAfter config)"

record LintResult =
  findings :: "Finding list"
  summary :: Summary
  resultVersion :: string
  resultConfig :: LintConfig

definition VERSION :: string where
  "VERSION = ''0.1.0''"

text \<open>
  \<^verbatim>\<open>lint\<close>. The two clock readings of the metadata are left out of the result; the
  registered engines are an argument.
\<close>

definition lint ::
  "(string \<Rightarrow> 'k::linorder) \<Rightarrow> Runtime \<Rightarrow> 's ValidationEngine list \<Rightarrow> LintConfig \<Rightarrow> LintResult" where
  "lint collationKey rt registered config =
     (let base = (case basePath config of None \<Rightarrow> cwd rt | Some b \<Rightarrow> b);
          discoveryOptions = \<lparr>optBasePath = base, optExclude = exclude config,
                              optFollowSymlinks = None\<rparr>;
          files = discoverFiles collationKey rt (paths config) discoveryOptions;
          activeEngines = filter (\<lambda>engine. engineEnabled config (name engine)) registered;
          allFindings = validateFiles files activeEngines config;
          normalizedFindings = normalizeFindings collationKey allFindings
      in \<lparr>findings = normalizedFindings,
          summary = computeSummary normalizedFindings files,
          resultVersion = VERSION,
          resultConfig = config\<rparr>)"

section \<open>JavaScript values\<close>

text \<open>Truthiness: \<^verbatim>\<open>null\<close>, \<^verbatim>\<open>false\<close>, \<^verbatim>\<open>0\<close> and the empty string are falsy.\<close>

fun truthy :: "json \<Rightarrow> bool" where
  "truthy JNull = False"
| "truthy (JBool b) = b"
| "truthy (JNum n) = (n \<noteq> 0)"
| "truthy (JStr s) = (s \<noteq> [])"
| "truthy (JArr xs) = True"
| "truthy (JObj kvs) = True"

text \<open>\<^verbatim>\<open>typeof v === 'object'\<close>: \<^verbatim>\<open>null\<close>, arrays and objects.\<close>

fun typeofObject :: "json \<Rightarrow> bool" where
  "typeofObject JNull = True"
| "typeofObject (JArr xs) = True"
| "typeofObject (JObj kvs) = True"
| "typeofObject _ = False"

definition joinWith :: "string \<Rightarrow> string list \<Rightarrow> string" where
  "joinWith sep parts = concat (case parts of [] \<Rightarrow> [] | p # ps \<Rightarrow> p # map (\<lambda>q. sep @ q) ps)"

definition digitChar :: "nat \<Rightarrow> char" where
  "digitChar d = ''0123456789'' ! d"

fun showNat :: "nat \<Rightarrow> string" where
  "showNat n = (if n < 10 then [digitChar n] else showNat (n div 10) @ [digitChar (n mod 10)])"

definition showInt :: "int \<Rightarrow> string" where
  "showInt i = (if i < 0 then CHR ''-'' # showNat (nat (- i)) else showNat (nat i))"

text \<open>
  \<^verbatim>\<open>String(v)\<close>, which a template literal applies too. An array prints its elements
  joined by commas, \<^verbatim>\<open>null\<close> elements as nothing. A number prints in decimal digits, as
  JavaScript prints an integer below \<open>10\<^sup>2\<^sup>1\<close>.
\<close>

fun jsString :: "json \<Rightarrow> string" where
  "jsString JNull = ''null''"
| "jsString (JBool b) = (if b then ''true'' else ''false'')"
| "jsString (JNum n) = showInt n"
| "jsString (JStr s) = s"
| "jsString (JArr xs) = joinWith '','' (map (\<lambda>x. if x = JNull then [] else jsString x) xs)"
| "jsString (JObj kvs) = ''[object Object]''"

text \<open>
  The classes \<^verbatim>\<open>\d\<close> and \<^verbatim>\<open>\s\<close> of the regular expressions, the second on ASCII
  characters.
\<close>

definition isDigit :: "char \<Rightarrow> bool" where
  "isDigit c = (c \<in> set ''0123456789'')"

definition isSpace :: "char \<Rightarrow> bool" where
  "isSpace c = (c \<in> set [CHR 0x09, CHR 0x0A, CHR 0x0B, CHR 0x0C, CHR 0x0D, CHR '' ''])"

definition digitValue :: "char \<Rightarrow> int" where
  "digitValue c = (case map_of (zip ''0123456789'' [0, 1, 2, 3, 4, 5, 6, 7, 8, 9]) c of
                     Some d \<Rightarrow> d | None \<Rightarrow> 0)"

definition decimalValue :: "string \<Rightarrow> int" where
  "decimalValue ds = foldl (\<lambda>acc c. 10 * acc + digitValue c) 0 ds"

text \<open>
  \<^verbatim>\<open>parseInt(s, 10)\<close>: white space, a sign, then digits up to the first other character;
  \<open>None\<close> is \<^verbatim>\<open>NaN\<close>.
\<close>

definition parseInt :: "string \<Rightarrow> int option" where
  "parseInt s =
     (let t = dropWhile isSpace s;
          negative = (case t of c # cs \<Rightarrow> c = CHR ''-'' | [] \<Rightarrow> False);
          unsigned = (case t of c # cs \<Rightarrow> if c = CHR ''-'' \<or> c = CHR ''+'' then cs else t
                      | [] \<Rightarrow> t);
          ds = takeWhile isDigit unsigned
      in if ds = [] then None
         else Some (if negative then - decimalValue ds else decimalValue ds))"

text \<open>\<^verbatim>\<open>String.prototype.includes\<close> and \<^verbatim>\<open>startsWith\<close>.\<close>

fun strIncludes :: "string \<Rightarrow> string \<Rightarrow> bool" where
  "strIncludes [] needle = (needle = [])"
| "strIncludes (c # cs) needle = (prefix needle (c # cs) \<or> strIncludes cs needle)"

definition startsWith :: "string \<Rightarrow> string \<Rightarrow> bool" where
  "startsWith s p = prefix p s"

section \<open>Template conformance engine (engine-template/src/engine.ts)\<close>

record TemplateSpec =
  tmplId :: string
  tmplName :: "json option"
  requiredIdShortPaths :: "string list"
  requiredSemanticPaths :: "string list"
  sourcePath :: string

text \<open>
  A \<^verbatim>\<open>Set\<close> of strings is the list of its elements in insertion order, which is the
  order the source iterates it in.
\<close>

record PathSets =
  idShort :: "string list"
  semantic :: "string list"

definition setAdd :: "string \<Rightarrow> string list \<Rightarrow> string list" where
  "setAdd x xs = (if x \<in> set xs then xs else xs @ [x])"

record TemplateEngineOptions =
  optTemplateDir :: "string option"

text \<open>The private fields of the engine object.\<close>

record EngineState =
  templateIndex :: "(string \<times> TemplateSpec) list option"
  loadedTemplateDir :: "string option"
  loadedTemplateVersion :: "string option"
  warnedMissingTemplates :: bool

definition engineName :: string where
  "engineName = ''template-conformance''"

definition templateCanValidate :: "string \<Rightarrow> bool" where
  "templateCanValidate file = (toLowerCase (extname file) \<in> set [''.aasx'', ''.json'', ''.xml''])"

text \<open>\<^verbatim>\<open>getSemanticIdValue\<close>; the argument \<open>None\<close> is \<^verbatim>\<open>undefined\<close>.\<close>

fun stringValued :: "json \<Rightarrow> bool" where
  "stringValued entry = (case getProp entry ''value'' of Some (JStr s) \<Rightarrow> True | _ \<Rightarrow> False)"

definition getSemanticIdValue :: "json option \<Rightarrow> string option" where
  "getSemanticIdValue semanticId =
     (case semanticId of
        None \<Rightarrow> None
      | Some sid \<Rightarrow>
          if \<not> truthy sid then None
          else case sid of
            JStr s \<Rightarrow> Some s
          | _ \<Rightarrow>
            (case getProp sid ''value'' of
               Some (JStr v) \<Rightarrow> Some v
             | _ \<Rightarrow>
               (case getProp sid ''keys'' of
                  Some (JArr ks) \<Rightarrow>
                    (case find stringValued ks of
                       Some entry \<Rightarrow>
                         (case getProp entry ''value'' of Some (JStr v) \<Rightarrow> Some v | _ \<Rightarrow> None)
                     | None \<Rightarrow> None)
                | _ \<Rightarrow> None)))"

text \<open>\<^verbatim>\<open>parseCardinality\<close>: the minimum and, when it is given, the maximum.\<close>

record Cardinality =
  cardMin :: int
  cardMax :: "int option"

definition parseCardinality :: "string \<Rightarrow> Cardinality option" where
  "parseCardinality v =
     (if v = [] then None
      else let normalized = filter (\<lambda>c. \<not> isSpace c) v in
        if normalized = ''0'' then Some \<lparr>cardMin = 0, cardMax = Some 0\<rparr>
        else if normalized = ''1'' then Some \<lparr>cardMin = 1, cardMax = Some 1\<rparr>
        else
          let lower = takeWhile isDigit normalized;
              afterLower = dropWhile isDigit normalized;
              upper = drop 2 afterLower
          in if lower \<noteq> [] \<and> take 2 afterLower = ''..'' \<and>
                (upper = ''*'' \<or> (upper \<noteq> [] \<and> list_all isDigit upper))
             then Some \<lparr>cardMin = decimalValue lower,
                        cardMax = (if upper = ''*'' then None else Some (decimalValue upper))\<rparr>
             else if startsWith normalized ''zero'' then Some \<lparr>cardMin = 0, cardMax = None\<rparr>
             else if startsWith normalized ''one'' then Some \<lparr>cardMin = 1, cardMax = None\<rparr>
             else None)"

text \<open>
  One qualifier of \<^verbatim>\<open>isRequired\<close>: true when it marks the element optional. Its type is
  \<^verbatim>\<open>qualifier.type\<close> when that is a string, else \<^verbatim>\<open>qualifier.type.value\<close> when that is one,
  else empty; its value is the first of \<^verbatim>\<open>value\<close>, \<^verbatim>\<open>valueType\<close>, \<^verbatim>\<open>kind\<close> that is neither
  \<^verbatim>\<open>undefined\<close> nor \<^verbatim>\<open>null\<close>, the last of them standing when none is.
\<close>

definition qualifierType :: "json \<Rightarrow> string" where
  "qualifierType qualifier =
     (case getProp qualifier ''type'' of
        Some (JStr t) \<Rightarrow> t
      | Some ty \<Rightarrow> (case getProp ty ''value'' of Some (JStr t) \<Rightarrow> t | _ \<Rightarrow> [])
      | None \<Rightarrow> [])"

definition nullish :: "json option \<Rightarrow> bool" where
  "nullish v = (v = None \<or> v = Some JNull)"

definition qualifierValue :: "json \<Rightarrow> json option" where
  "qualifierValue qualifier =
     (if \<not> nullish (getProp qualifier ''value'') then getProp qualifier ''value''
      else if \<not> nullish (getProp qualifier ''valueType'') then getProp qualifier ''valueType''
      else getProp qualifier ''kind'')"

definition namesCardinality :: "string \<Rightarrow> bool" where
  "namesCardinality typeLower =
     (strIncludes typeLower ''cardinality'' \<or> strIncludes typeLower ''multiplicity'' \<or>
      strIncludes typeLower ''occurrence'')"

text \<open>\<^verbatim>\<open>String(value ?? '')\<close>.\<close>

definition valueText :: "json option \<Rightarrow> string" where
  "valueText v = (case v of None \<Rightarrow> [] | Some JNull \<Rightarrow> [] | Some x \<Rightarrow> jsString x)"

definition marksOptional :: "json \<Rightarrow> bool" where
  "marksOptional qualifier =
     (let typeValue = qualifierType qualifier;
          v = qualifierValue qualifier
      in if typeValue = [] \<and> v = None then False
         else
           let typeLower = toLowerCase typeValue;
               valueLower = toLowerCase (valueText v)
           in (if namesCardinality typeLower
               then (case parseCardinality valueLower of
                       Some parsed \<Rightarrow> cardMin parsed = 0
                     | None \<Rightarrow> False)
               else False)
              \<or> (if strIncludes typeLower ''min'' \<and> valueLower \<noteq> []
                  then parseInt valueLower = Some 0
                  else False))"

definition isRequired :: "json \<Rightarrow> bool" where
  "isRequired element =
     (if getProp element ''minOccurrences'' = Some (JNum 0) then False
      else case getProp element ''qualifiers'' of
             Some (JArr qualifiers) \<Rightarrow> \<not> list_ex marksOptional qualifiers
           | _ \<Rightarrow> True)"

text \<open>\<^verbatim>\<open>extractChildElements\<close>: the children pooled from the container fields.\<close>

definition directArrays :: "string list" where
  "directArrays = [''submodelElements'', ''value'', ''elements'', ''statements'', ''annotations'']"

definition variableKeys :: "string list" where
  "variableKeys = [''inputVariables'', ''outputVariables'', ''inoutputVariables'']"

fun arrayItems :: "json option \<Rightarrow> json list" where
  "arrayItems (Some (JArr xs)) = xs"
| "arrayItems _ = []"

definition variableValue :: "json \<Rightarrow> json list" where
  "variableValue variable =
     (case getProp variable ''value'' of
        Some v \<Rightarrow> if truthy v \<and> typeofObject v then [v] else []
      | None \<Rightarrow> [])"

definition extractChildElements :: "json \<Rightarrow> json list" where
  "extractChildElements element =
     concat (map (\<lambda>key. arrayItems (getProp element key)) directArrays)
     @ concat (map (\<lambda>key. concat (map variableValue (arrayItems (getProp element key))))
                variableKeys)"

text \<open>Every child is a proper part of the element, which is why the walk ends.\<close>

fun maxSize :: "json list \<Rightarrow> nat" where
  "maxSize [] = 0"
| "maxSize (x # xs) = max (size x) (maxSize xs)"

lemma size_member_JArr: "x \<in> set xs \<Longrightarrow> size x < size (JArr xs)"
  by (induction xs) auto

lemma size_member_JObj: "(k, v) \<in> set kvs \<Longrightarrow> size v < size (JObj kvs)"
  by (induction kvs) auto

lemma size_getProp: "getProp e k = Some v \<Longrightarrow> size v < size e"
proof (cases e)
  case (JObj kvs)
  assume "getProp e k = Some v"
  with JObj have "(k, v) \<in> set kvs"
    by (simp add: map_of_SomeD)
  then show ?thesis
    unfolding JObj by (rule size_member_JObj)
qed simp_all

lemma size_arrayItems: "x \<in> set (arrayItems (getProp e k)) \<Longrightarrow> size x < size e"
proof (cases "getProp e k")
  case None
  assume "x \<in> set (arrayItems (getProp e k))"
  with None show ?thesis by simp
next
  case (Some v)
  assume x: "x \<in> set (arrayItems (getProp e k))"
  then obtain xs where v: "v = JArr xs"
    using Some by (cases v) auto
  with x Some have "x \<in> set xs" by simp
  then have "size x < size v"
    unfolding v by (rule size_member_JArr)
  with size_getProp [OF Some] show ?thesis by simp
qed

lemma size_variableValue: "x \<in> set (variableValue variable) \<Longrightarrow> size x < size variable"
proof -
  assume "x \<in> set (variableValue variable)"
  then have "getProp variable ''value'' = Some x"
    by (auto simp: variableValue_def split: option.splits if_splits)
  then show ?thesis by (rule size_getProp)
qed

lemma size_extractChildElements:
  "x \<in> set (extractChildElements e) \<Longrightarrow> size x < size e"
proof -
  assume "x \<in> set (extractChildElements e)"
  then consider k where "x \<in> set (arrayItems (getProp e k))"
    | k variable where "variable \<in> set (arrayItems (getProp e k))"
        "x \<in> set (variableValue variable)"
    by (auto simp: extractChildElements_def)
  then show ?thesis
  proof cases
    case 1
    then show ?thesis by (rule size_arrayItems)
  next
    case 2
    from size_variableValue [OF 2(2)] size_arrayItems [OF 2(1)] show ?thesis by simp
  qed
qed

lemma maxSize_less: "0 < n \<Longrightarrow> (\<And>x. x \<in> set xs \<Longrightarrow> size x < n) \<Longrightarrow> maxSize xs < n"
  by (induction xs) auto

lemma maxSize_children:
  assumes "extractChildElements e \<noteq> []"
  shows "maxSize (extractChildElements e) < size e"
proof (rule maxSize_less)
  from assms obtain x where "x \<in> set (extractChildElements e)"
    by (cases "extractChildElements e") auto
  then have "size x < size e" by (rule size_extractChildElements)
  then show "0 < size e" by simp
qed (rule size_extractChildElements)

lemma maxSize_children_max:
  "extractChildElements e \<noteq> [] \<Longrightarrow> maxSize (extractChildElements e) < max (size e) n"
  using maxSize_children [of e] by simp

text \<open>
  \<^verbatim>\<open>collectPathsRecursive\<close>. The source adds to the two sets in place; the model returns
  them. The three helpers are the statements of the loop body on one identifier: the
  \<^verbatim>\<open>idShort\<close> when it is a string, a path extended by an identifier that is not empty,
  and the path added to a set for such an identifier.
\<close>

definition elementIdShort :: "json \<Rightarrow> string option" where
  "elementIdShort element =
     (case getProp element ''idShort'' of Some (JStr s) \<Rightarrow> Some s | _ \<Rightarrow> None)"

definition extendPath :: "string list \<Rightarrow> string option \<Rightarrow> string list" where
  "extendPath parentPath identifier =
     (case identifier of
        Some s \<Rightarrow> if s \<noteq> [] then parentPath @ [s] else parentPath
      | None \<Rightarrow> parentPath)"

definition addPath :: "string option \<Rightarrow> string list \<Rightarrow> string list \<Rightarrow> string list" where
  "addPath identifier nextPath collected =
     (case identifier of
        Some s \<Rightarrow> if s \<noteq> [] then setAdd (joinWith ''/'' nextPath) collected else collected
      | None \<Rightarrow> collected)"

function collectPathsRecursive ::
  "json list \<Rightarrow> string list \<Rightarrow> string list \<Rightarrow> bool \<Rightarrow> PathSets \<Rightarrow> bool \<Rightarrow> PathSets" where
  "collectPathsRecursive [] parentIdShortPath parentSemanticPath parentRequired pathSets
     requiredOnly = pathSets"
| "collectPathsRecursive (element # rest) parentIdShortPath parentSemanticPath parentRequired
     pathSets requiredOnly =
     (if \<not> (truthy element \<and> typeofObject element)
      then collectPathsRecursive rest parentIdShortPath parentSemanticPath parentRequired
             pathSets requiredOnly
      else
        let idShortOpt = elementIdShort element;
            semanticId = getSemanticIdValue (getProp element ''semanticId'');
            required = (parentRequired \<and> (if requiredOnly then isRequired element else True));
            nextIdShortPath = extendPath parentIdShortPath idShortOpt;
            nextSemanticPath = extendPath parentSemanticPath semanticId;
            added = (if requiredOnly \<and> \<not> required then pathSets
                     else \<lparr>idShort = addPath idShortOpt nextIdShortPath (idShort pathSets),
                           semantic = addPath semanticId nextSemanticPath
                                        (semantic pathSets)\<rparr>);
            children = extractChildElements element;
            walked = (if children \<noteq> []
                      then collectPathsRecursive children nextIdShortPath nextSemanticPath
                             required added requiredOnly
                      else added)
        in collectPathsRecursive rest parentIdShortPath parentSemanticPath parentRequired
             walked requiredOnly)"
  by pat_completeness auto
termination
  by (relation "measures [\<lambda>(elements, _). maxSize elements, \<lambda>(elements, _). length elements]")
     (auto simp: maxSize_children_max)

definition emptyPathSets :: PathSets where
  "emptyPathSets = \<lparr>idShort = [], semantic = []\<rparr>"

definition collectTemplatePaths :: "json list \<Rightarrow> PathSets" where
  "collectTemplatePaths submodelElements =
     collectPathsRecursive submodelElements [] [] True emptyPathSets True"

definition collectInstancePaths :: "json list \<Rightarrow> PathSets" where
  "collectInstancePaths submodelElements =
     collectPathsRecursive submodelElements [] [] True emptyPathSets False"

text \<open>
  \<^verbatim>\<open>loadTemplates\<close>. The index is the list of its entries in insertion order; a
  semantic identifier is entered once. \<open>indexSubmodel\<close> is the body of the inner loop,
  \<open>indexFile\<close> the body of the loop over the files the glob enumerates.
\<close>

definition indexSubmodel ::
  "string \<Rightarrow> (string \<times> TemplateSpec) list \<Rightarrow> json \<Rightarrow> (string \<times> TemplateSpec) list" where
  "indexSubmodel file index submodel =
     (case getSemanticIdValue (getProp submodel ''semanticId'') of
        None \<Rightarrow> index
      | Some templateId \<Rightarrow>
          if templateId = [] then index
          else if map_of index templateId \<noteq> None then index
          else
            let submodelElements = arrayItems (getProp submodel ''submodelElements'');
                requiredPaths = collectTemplatePaths submodelElements
            in index @ [(templateId,
                         \<lparr>tmplId = templateId,
                          tmplName = getProp submodel ''idShort'',
                          requiredIdShortPaths = idShort requiredPaths,
                          requiredSemanticPaths = semantic requiredPaths,
                          sourcePath = file\<rparr>)])"

definition indexFile ::
  "Runtime \<Rightarrow> string option \<Rightarrow> (string \<times> TemplateSpec) list \<Rightarrow> string
     \<Rightarrow> (string \<times> TemplateSpec) list" where
  "indexFile rt normalizedVersion index file =
     (if (case normalizedVersion of Some v \<Rightarrow> \<not> strIncludes file v | None \<Rightarrow> False)
      then index
      else case readJson rt file of
             None \<Rightarrow> index
           | Some data \<Rightarrow>
               if \<not> (truthy data \<and> isArray (getProp data ''submodels'')) then index
               else foldl (indexSubmodel file) index (arrayItems (getProp data ''submodels'')))"

definition loadTemplates ::
  "Runtime \<Rightarrow> string \<Rightarrow> string option \<Rightarrow> (string \<times> TemplateSpec) list" where
  "loadTemplates rt dir version =
     (let normalizedVersion = (case version of
                                 Some v \<Rightarrow> if v \<noteq> [] \<and> v \<noteq> ''latest'' then Some v else None
                               | None \<Rightarrow> None);
          patterns = [pathJoin rt [dir, ''**/*.json'']];
          files = fastGlob rt patterns
                    \<lparr>globCwd = None, globIgnore = [], followSymbolicLinks = True\<rparr>
      in foldl (indexFile rt normalizedVersion) [] files)"

text \<open>\<^verbatim>\<open>loadEnvironment\<close>: the document and, for a package, the path inside it.\<close>

definition loadEnvironment :: "Runtime \<Rightarrow> string \<Rightarrow> string + (json \<times> string option) option" where
  "loadEnvironment rt file =
     (let ext = toLowerCase (extname file) in
      if ext = ''.xml'' then Inr None
      else if ext = ''.json'' then
        (case readJson rt file of
           None \<Rightarrow> Inr None
         | Some data \<Rightarrow> if truthy data then Inr (Some (data, None)) else Inr None)
      else if ext = ''.aasx'' then
        (case mkdtemp rt (pathJoin rt [tmpdir rt, ''aas-ci-lint-'']) of
           Inl failure \<Rightarrow> Inl failure
         | Inr tempDir \<Rightarrow>
             (case unpackAasx rt file tempDir of
                Inl failure \<Rightarrow> Inl failure
              | Inr unpackedDir \<Rightarrow>
                  (case findAasEnvironmentInAasx rt unpackedDir of
                     None \<Rightarrow> Inr None
                   | Some envPath \<Rightarrow>
                       if envPath = [] then Inr None
                       else if toLowerCase (extname envPath) \<noteq> ''.json'' then Inr None
                       else
                         (case readJson rt envPath of
                            None \<Rightarrow> Inr None
                          | Some data \<Rightarrow>
                              if truthy data
                              then Inr (Some (data, Some (pathRelative rt unpackedDir envPath)))
                              else Inr None))))
      else Inr None)"

text \<open>Resolution of the template directory.\<close>

fun firstDefined :: "string option list \<Rightarrow> string option" where
  "firstDefined [] = None"
| "firstDefined (Some s # rest) = Some s"
| "firstDefined (None # rest) = firstDefined rest"

fun truthyString :: "string option \<Rightarrow> bool" where
  "truthyString None = False"
| "truthyString (Some s) = (s \<noteq> [])"

definition resolveTemplateRoot :: "Runtime \<Rightarrow> string \<Rightarrow> string option" where
  "resolveTemplateRoot rt explicitPath =
     (if \<not> isDirectory rt explicitPath then None
      else let publishedDir = pathJoin rt [explicitPath, ''published'']
           in if isDirectory rt publishedDir then Some publishedDir else Some explicitPath)"

definition getDefaultTemplateRepoDir :: "Runtime \<Rightarrow> string" where
  "getDefaultTemplateRepoDir rt =
     pathJoin rt [homedir rt, ''.cache'', ''aas-ci-lint'', ''submodel-templates'']"

definition getDefaultTemplateDir :: "Runtime \<Rightarrow> string" where
  "getDefaultTemplateDir rt = pathJoin rt [getDefaultTemplateRepoDir rt, ''published'']"

definition resolveTemplateDir ::
  "Runtime \<Rightarrow> LintConfig \<Rightarrow> TemplateEngineOptions \<Rightarrow> string option" where
  "resolveTemplateDir rt config options =
     (let explicit = firstDefined [optTemplateDir options, templateDir config, envTemplateDir rt]
      in case explicit of
           Some e \<Rightarrow>
             if e \<noteq> [] \<and> pathIsAbsolute rt e then resolveTemplateRoot rt e
             else if e \<noteq> [] then resolveTemplateRoot rt (pathResolve rt (cwd rt) e)
             else if isDirectory rt (getDefaultTemplateDir rt)
                  then Some (getDefaultTemplateDir rt) else None
         | None \<Rightarrow>
             if isDirectory rt (getDefaultTemplateDir rt)
             then Some (getDefaultTemplateDir rt) else None)"

text \<open>The two findings of the engine.\<close>

definition templatesNotFound :: "string \<Rightarrow> Finding" where
  "templatesNotFound file =
     \<lparr>ruleId = engineName @ ''/templates-not-found'',
      ruleName = ''Templates Not Found'',
      severity = Note,
      message = ''Template validation skipped: no templates directory configured. ''
                @ ''Set AAS_CI_LINT_TEMPLATE_DIR or use --template-dir to enable template checks.'',
      location = \<lparr>filePath = file, internalPath = None, jsonPointer = None, line = None,
                   column = None\<rparr>,
      source = engineName,
      details = None\<rparr>"

definition templateLabel :: "TemplateSpec \<Rightarrow> string" where
  "templateLabel template =
     (case tmplName template of
        None \<Rightarrow> tmplId template
      | Some JNull \<Rightarrow> tmplId template
      | Some n \<Rightarrow> jsString n)"

definition missingElement :: "TemplateSpec \<Rightarrow> Location \<Rightarrow> string \<Rightarrow> Finding" where
  "missingElement template baseLocation requiredPath =
     \<lparr>ruleId = engineName @ ''/missing-element'',
      ruleName = ''Missing Template Element'',
      severity = Error,
      message = ''Missing required template element '' @ quote @ requiredPath @ quote
                @ '' for template '' @ templateLabel template @ ''.'',
      location = baseLocation,
      source = engineName,
      details = Some [(''templateId'', Some (JStr (tmplId template))),
                      (''templateName'', tmplName template),
                      (''expectedPath'', Some (JStr requiredPath)),
                      (''templateSource'', Some (JStr (sourcePath template)))]\<rparr>"

text \<open>
  The body of \<^verbatim>\<open>submodels.forEach\<close>: the findings of one submodel of the instance.
  \<open>matchedTemplate\<close> is its first part, the template looked up under the semantic
  identifier of the submodel; the callback returns early when there is none.
\<close>

definition matchedTemplate :: "(string \<times> TemplateSpec) list \<Rightarrow> json \<Rightarrow> TemplateSpec option" where
  "matchedTemplate index submodel =
     (case getSemanticIdValue (getProp submodel ''semanticId'') of
        None \<Rightarrow> None
      | Some templateId \<Rightarrow> if templateId = [] then None else map_of index templateId)"

definition checkSubmodel ::
  "(string \<times> TemplateSpec) list \<Rightarrow> string \<Rightarrow> string option \<Rightarrow> nat \<Rightarrow> json \<Rightarrow> Finding list" where
  "checkSubmodel index file inner position submodel =
     (case matchedTemplate index submodel of
        None \<Rightarrow> []
      | Some template \<Rightarrow>
          let submodelElements = arrayItems (getProp submodel ''submodelElements'');
              instancePaths = collectInstancePaths submodelElements;
              basePointer = ''/submodels/'' @ showNat position;
              baseLocation = \<lparr>filePath = file, internalPath = inner,
                              jsonPointer = Some basePointer, line = None, column = None\<rparr>
          in map (missingElement template baseLocation)
               (filter (\<lambda>requiredPath. requiredPath \<notin> set (idShort instancePaths) \<and>
                                       requiredPath \<notin> set (semantic instancePaths))
                  (requiredIdShortPaths template))
             @ map (missingElement template baseLocation)
                 (filter (\<lambda>requiredPath. requiredPath \<notin> set (semantic instancePaths) \<and>
                                         requiredPath \<notin> set (idShort instancePaths))
                    (requiredSemanticPaths template)))"

text \<open>
  \<^verbatim>\<open>validate\<close> of the template engine: the findings or the failure, and the fields of
  the engine after the call.
\<close>

definition templateValidate ::
  "Runtime \<Rightarrow> TemplateEngineOptions \<Rightarrow> EngineState \<Rightarrow> string \<Rightarrow> LintConfig
     \<Rightarrow> (string + Finding list) \<times> EngineState" where
  "templateValidate rt options st file config =
     (let hasExplicitTemplateConfig =
            truthyString (firstDefined [optTemplateDir options, templateDir config,
                                        envTemplateDir rt, templateVersion config]);
          resolved = resolveTemplateDir rt config options
      in if \<not> truthyString resolved then
           (if hasExplicitTemplateConfig \<and> \<not> warnedMissingTemplates st
            then (Inr [templatesNotFound file], st\<lparr>warnedMissingTemplates := True\<rparr>)
            else (Inr [], st))
         else
           let st1 = (if templateIndex st = None \<or> loadedTemplateDir st \<noteq> resolved \<or>
                         loadedTemplateVersion st \<noteq> templateVersion config
                      then st\<lparr>templateIndex :=
                                Some (loadTemplates rt (the resolved) (templateVersion config)),
                              loadedTemplateDir := resolved,
                              loadedTemplateVersion := templateVersion config\<rparr>
                      else st);
               index = (case templateIndex st1 of Some i \<Rightarrow> i | None \<Rightarrow> [])
           in if index = [] then (Inr [], st1)
              else case loadEnvironment rt file of
                     Inl failure \<Rightarrow> (Inl failure, st1)
                   | Inr None \<Rightarrow> (Inr [], st1)
                   | Inr (Some (data, inner)) \<Rightarrow>
                       let submodels = arrayItems (getProp data ''submodels'')
                       in (Inr (concat (map (\<lambda>(position, submodel).
                                               checkSubmodel index file inner position submodel)
                                         (enumerate 0 submodels))),
                           st1))"

definition initialState :: EngineState where
  "initialState = \<lparr>templateIndex = None, loadedTemplateDir = None,
                    loadedTemplateVersion = None, warnedMissingTemplates = False\<rparr>"

text \<open>The engine as the orchestrator registers it.\<close>

definition templateConformanceEngine ::
  "Runtime \<Rightarrow> TemplateEngineOptions \<Rightarrow> EngineState ValidationEngine" where
  "templateConformanceEngine rt options =
     \<lparr>name = engineName,
      description = ''IDTA submodel template conformance (best-effort)'',
      canValidate = templateCanValidate,
      validate = templateValidate rt options,
      engineState = initialState\<rparr>"

section \<open>The order and the sample inputs the properties are stated with\<close>



text \<open>Two collations: by code units, and without regard to the case of ASCII letters.\<close>

definition codeUnitKey :: "string \<Rightarrow> string" where
  "codeUnitKey s = s"


definition sampleFinding :: "string \<Rightarrow> int option \<Rightarrow> string \<Rightarrow> string \<Rightarrow> Finding" where
  "sampleFinding file ln rule msg =
     \<lparr>ruleId = rule, ruleName = ''Sample'', severity = Warning, message = msg,
      location = \<lparr>filePath = file, internalPath = None, jsonPointer = None, line = ln,
                   column = None\<rparr>,
      source = ''sample'', details = None\<rparr>"

text \<open>
  A machine for the examples: the directories \<open>dirs\<close> exist, \<open>globbed\<close> is what every
  glob call enumerates, and \<open>docs\<close> gives the parsed content of the readable JSON files.
\<close>

definition sampleRuntime ::
  "string list \<Rightarrow> string list \<Rightarrow> (string \<times> json) list \<Rightarrow> Runtime" where
  "sampleRuntime dirs globbed docs =
     \<lparr>envTemplateDir = None,
      cwd = ''/work'',
      homedir = ''/home/u'',
      tmpdir = ''/tmp'',
      pathJoin = joinWith ''/'',
      pathResolve = (\<lambda>base p. base @ ''/'' @ p),
      pathIsAbsolute = (\<lambda>p. prefix ''/'' p),
      pathRelative = (\<lambda>base p. drop (Suc (length base)) p),
      pathBasename = (\<lambda>p ext. p),
      fastGlob = (\<lambda>patterns opts. globbed),
      isDirectory = (\<lambda>p. p \<in> set dirs),
      readJson = map_of docs,
      access = (\<lambda>p. map_of docs p \<noteq> None),
      readdir = (\<lambda>p. None),
      mkdtemp = (\<lambda>p. Inr (p @ ''XXXXXX'')),
      extractAllTo = (\<lambda>archive target. None)\<rparr>"

definition sampleConfig :: LintConfig where
  "sampleConfig =
     \<lparr>paths = [''**/*''], exclude = None, failOn = [Error], templateVersion = None,
      templateDir = None, basePath = Some ''/r'', engines = None\<rparr>"


definition reportingEngine :: "unit ValidationEngine" where
  "reportingEngine =
     \<lparr>name = ''rep'', description = ''one finding per file'', canValidate = (\<lambda>file. True),
      validate = (\<lambda>s file config. (Inr [sampleFinding file None ''rep/c/x'' ''m''], s)),
      engineState = ()\<rparr>"

definition strayEngine :: "unit ValidationEngine" where
  "strayEngine =
     \<lparr>name = ''stray'', description = ''findings located elsewhere'',
      canValidate = (\<lambda>file. True),
      validate = (\<lambda>s file config.
        (Inr [sampleFinding ''/elsewhere/1.json'' None ''stray/c/x'' ''m'',
              sampleFinding ''/elsewhere/2.json'' None ''stray/c/x'' ''m''], s)),
      engineState = ()\<rparr>"

text \<open>An engine that locates every finding it returns at the file it was asked about.\<close>

definition locatesAtFile :: "'s ValidationEngine \<Rightarrow> bool" where
  "locatesAtFile e \<longleftrightarrow>
     (\<forall>s file config fs s'. validate e s file config = (Inr fs, s')
        \<longrightarrow> (\<forall>x\<in>set fs. filePath (location x) = file))"






text \<open>
  The three forms of the semantic identifier \<open>X\<close>, from the words of the specification:
  the bare string, an object whose \<^verbatim>\<open>value\<close> is \<open>X\<close>, and a reference object with no string
  \<^verbatim>\<open>value\<close> of its own whose \<^verbatim>\<open>keys\<close> array has \<open>X\<close> as the \<^verbatim>\<open>value\<close> of its first entry with
  a string \<^verbatim>\<open>value\<close>.
\<close>

definition isSemanticIdForm :: "string \<Rightarrow> json \<Rightarrow> bool" where
  "isSemanticIdForm X sid \<longleftrightarrow>
     sid = JStr X
     \<or> (\<exists>kvs. sid = JObj kvs \<and> map_of kvs ''value'' = Some (JStr X))
     \<or> (\<exists>kvs before entry after.
           sid = JObj kvs \<and> (\<nexists>v. map_of kvs ''value'' = Some (JStr v)) \<and>
           map_of kvs ''keys'' = Some (JArr (before @ entry # after)) \<and>
           list_all (\<lambda>k. \<nexists>v. getProp k ''value'' = Some (JStr v)) before \<and>
           getProp entry ''value'' = Some (JStr X))"

text \<open>The segments of a rule identifier: the parts between its slashes.\<close>

fun segmentsFrom :: "string \<Rightarrow> string \<Rightarrow> string list" where
  "segmentsFrom cur [] = [cur]"
| "segmentsFrom cur (c # cs) =
     (if c = CHR ''/'' then cur # segmentsFrom [] cs else segmentsFrom (cur @ [c]) cs)"

definition segments :: "string \<Rightarrow> string list" where
  "segments s = segmentsFrom [] s"

text \<open>
  A template that requires the \<^verbatim>\<open>idShort\<close> paths \<^verbatim>\<open>A\<close> and \<^verbatim>\<open>X\<close> and the semantic paths
  \<^verbatim>\<open>urn:s\<close> and \<^verbatim>\<open>A\<close>, and an instance submodel of it whose only element has the \<^verbatim>\<open>idShort\<close>
  \<^verbatim>\<open>A\<close>.
\<close>

definition sampleTemplate :: TemplateSpec where
  "sampleTemplate =
     \<lparr>tmplId = ''urn:t'', tmplName = Some (JStr ''T''),
      requiredIdShortPaths = [''A'', ''X''], requiredSemanticPaths = [''urn:s'', ''A''],
      sourcePath = ''/t/t.json''\<rparr>"

definition sampleInstance :: json where
  "sampleInstance =
     JObj [(''semanticId'', JObj [(''keys'', JArr [JObj [(''value'', JStr ''urn:t'')]])]),
           (''submodelElements'', JArr [JObj [(''idShort'', JStr ''A'')]])]"

text \<open>
  A template directory with two files that define the same semantic identifier, and the
  configuration that names the directory.
\<close>

definition templateDocs :: "(string \<times> json) list" where
  "templateDocs =
     [(''/tpl/a.json'',
       JObj [(''submodels'',
              JArr [JObj [(''semanticId'', JStr ''urn:t''), (''idShort'', JStr ''A''),
                          (''submodelElements'', JArr [JObj [(''idShort'', JStr ''OnlyInA'')]])]])]),
      (''/tpl/b.json'',
       JObj [(''submodels'',
              JArr [JObj [(''semanticId'', JStr ''urn:t''), (''idShort'', JStr ''B''),
                          (''submodelElements'', JArr [JObj [(''idShort'', JStr ''OnlyInB'')]])]])])]"

definition templateConfig :: LintConfig where
  "templateConfig = sampleConfig\<lparr>templateDir := Some ''/tpl''\<rparr>"

definition noOptions :: TemplateEngineOptions where
  "noOptions = \<lparr>optTemplateDir = None\<rparr>"

section \<open>Sorting and deduplication\<close>

lemma set_sortInsert: "set (sortInsert cmp x xs) = insert x (set xs)"
  by (induction xs) auto

lemma set_arraySort: "set (arraySort cmp xs) = set xs"
  by (induction xs) (auto simp: set_sortInsert)




lemma localeCompare_eq0: "localeCompare k a b = 0 \<longleftrightarrow> k a = k b"
  by (auto simp: localeCompare_def)

lemma localeCompare_neg: "localeCompare k a b < 0 \<longleftrightarrow> k a < k b"
  by (auto simp: localeCompare_def)




lemma set_deduplicate: "set (deduplicate seen fs) \<subseteq> set fs"
  by (induction fs arbitrary: seen) auto



section \<open>Normalization\<close>






section \<open>Engine isolation\<close>





section \<open>Summary\<close>

lemma runEngine_located:
  assumes "locatesAtFile e"
  shows "(\<forall>x\<in>set (fst (runEngine e file config)). filePath (location x) = file)
       \<and> locatesAtFile (snd (runEngine e file config))"
proof (cases "validate e (engineState e) file config")
  case (Pair r s)
  show ?thesis
  proof (cases r)
    case (Inl failure)
    with Pair assms show ?thesis
      by (simp add: runEngine_def engineError_def locatesAtFile_def)
  next
    case (Inr fs)
    with Pair have "validate e (engineState e) file config = (Inr fs, s)" by simp
    with assms have "\<forall>x\<in>set fs. filePath (location x) = file"
      unfolding locatesAtFile_def by blast
    moreover have "locatesAtFile (e\<lparr>engineState := s\<rparr>)"
      using assms by (simp add: locatesAtFile_def)
    ultimately show ?thesis
      using Pair Inr by (simp add: runEngine_def)
  qed
qed

lemma validateFile_located:
  assumes "\<forall>e\<in>set es. locatesAtFile e"
  shows "(\<forall>x\<in>set (fst (validateFile file es config)). filePath (location x) = file)
       \<and> (\<forall>e\<in>set (snd (validateFile file es config)). locatesAtFile e)"
  using assms runEngine_located
  by (fastforce simp: validateFile_def Let_def)

lemma validateFiles_located:
  assumes "\<forall>e\<in>set es. locatesAtFile e"
  shows "\<forall>x\<in>set (validateFiles files es config). filePath (location x) \<in> set files"
  using assms
proof (induction files arbitrary: es)
  case Nil
  then show ?case by simp
next
  case (Cons p ps)
  obtain ff es' where v: "validateFile p es config = (ff, es')"
    by (cases "validateFile p es config")
  from validateFile_located [OF Cons.prems, of p config] v
  have a: "\<forall>x\<in>set ff. filePath (location x) = p" and b: "\<forall>e\<in>set es'. locatesAtFile e"
    by auto
  from Cons.IH [OF b] a v show ?case by auto
qed

text \<open>
  Claim C8, as the code has it. When every registered engine locates the findings it
  returns for a file at that file, the number of distinct file paths among the normalized
  findings is at most the number of discovered files.
\<close>

theorem lint_filesWithFindings_le_filesScanned:
  assumes "\<forall>e\<in>set registered. \<forall>s file cfg fs s'.
             validate e s file cfg = (Inr fs, s')
               \<longrightarrow> (\<forall>x\<in>set fs. filePath (location x) = file)"
  shows "filesWithFindings (summary (lint k rt registered config))
           \<le> filesScanned (summary (lint k rt registered config))"
proof -
  define base where "base = (case basePath config of None \<Rightarrow> cwd rt | Some b \<Rightarrow> b)"
  define files where "files = discoverFiles k rt (paths config)
     \<lparr>optBasePath = base, optExclude = exclude config, optFollowSymlinks = None\<rparr>"
  define active where "active = filter (\<lambda>engine. engineEnabled config (name engine)) registered"
  define norm where "norm = normalizeFindings k (validateFiles files active config)"
  have "\<forall>e\<in>set active. locatesAtFile e"
    using assms unfolding active_def locatesAtFile_def by (simp (no_asm_use)) blast
  then have "\<forall>x\<in>set (validateFiles files active config). filePath (location x) \<in> set files"
    by (rule validateFiles_located)
  moreover have "set norm \<subseteq> set (validateFiles files active config)"
    unfolding norm_def normalizeFindings_def Let_def
    using set_deduplicate [of "[]" "arraySort (findingCompare k) (validateFiles files active config)"]
    by (simp add: set_arraySort)
  ultimately have "set (map (\<lambda>f. filePath (location f)) norm) \<subseteq> set files"
    by auto
  then have "card (set (map (\<lambda>f. filePath (location f)) norm)) \<le> card (set files)"
    by (intro card_mono) auto
  also have "\<dots> \<le> length files" by (rule card_length)
  finally have "length (remdups (map (\<lambda>f. filePath (location f)) norm)) \<le> length files"
    by (simp add: length_remdups_card_conv)
  then show ?thesis
    by (simp add: lint_def Let_def computeSummary_def files_def base_def active_def norm_def)
qed

lemma sample_discover:
  "discoverFiles codeUnitKey (sampleRuntime [] [''/r/a.xml''] []) [''**/*'']
      \<lparr>optBasePath = ''/r'', optExclude = None, optFollowSymlinks = None\<rparr> = [''/r/a.xml'']"
  by (simp add: discoverFiles_def sampleRuntime_def extname_def toLowerCase_def
      toLowerChar_def SUPPORTED_EXTENSIONS_def)

text \<open>The theorem at one XML file and the engine that reports at the file it was given.\<close>

theorem lint_filesWithFindings_le_filesScanned_witness:
  "filesWithFindings (summary (lint codeUnitKey (sampleRuntime [] [''/r/a.xml''] [])
                                   [reportingEngine] sampleConfig))
     \<le> filesScanned (summary (lint codeUnitKey (sampleRuntime [] [''/r/a.xml''] [])
                                 [reportingEngine] sampleConfig))
   \<and> filesScanned (summary (lint codeUnitKey (sampleRuntime [] [''/r/a.xml''] [])
                                   [reportingEngine] sampleConfig)) = 1"
proof -
  have h: "\<forall>e\<in>set [reportingEngine]. \<forall>s file cfg fs s'.
      validate e s file cfg = (Inr fs, s') \<longrightarrow> (\<forall>x\<in>set fs. filePath (location x) = file)"
    by (auto simp: reportingEngine_def sampleFinding_def)
  have "filesScanned (summary (lint codeUnitKey (sampleRuntime [] [''/r/a.xml''] [])
                                   [reportingEngine] sampleConfig)) = 1"
    by (simp add: lint_def sampleConfig_def sample_discover computeSummary_def Let_def)
  then show ?thesis
    using lint_filesWithFindings_le_filesScanned [OF h, of codeUnitKey
              "sampleRuntime [] [''/r/a.xml''] []" sampleConfig]
    by blast
qed

text \<open>
  Claim C8 as stated fails: the summary counts the file paths the engines report, whatever
  they are. One file is scanned and the engine reports findings at two other paths.
\<close>

theorem lint_filesWithFindings_counterexample:
  "\<not> filesWithFindings (summary (lint codeUnitKey (sampleRuntime [] [''/r/a.xml''] [])
                                    [strayEngine] sampleConfig))
       \<le> filesScanned (summary (lint codeUnitKey (sampleRuntime [] [''/r/a.xml''] [])
                                    [strayEngine] sampleConfig))"
  by (simp add: lint_def sampleConfig_def sample_discover engineEnabled_def strayEngine_def
      validateFile_def runEngine_def normalizeFindings_def findingCompare_def localeCompare_def
      codeUnitKey_def lineOrMax_def sampleFinding_def findingKey_def computeSummary_def)

section \<open>Discovery\<close>






lemma extname_valid_JSON: "toLowerCase (extname ''/r/valid.JSON'') = ''.json''"
  by (simp add: extname_def toLowerCase_def toLowerChar_def)



section \<open>The path walk\<close>





section \<open>Requiredness\<close>











section \<open>Missing elements\<close>





lemma sample_matched:
  "matchedTemplate [(''urn:t'', sampleTemplate)] sampleInstance = Some sampleTemplate"
  by (simp add: matchedTemplate_def sampleInstance_def getSemanticIdValue_def)

lemma sample_instancePaths:
  "collectInstancePaths (arrayItems (getProp sampleInstance ''submodelElements''))
   = \<lparr>idShort = [''A''], semantic = []\<rparr>"
  by (simp add: sampleInstance_def collectInstancePaths_def emptyPathSets_def Let_def
      elementIdShort_def getSemanticIdValue_def extendPath_def addPath_def setAdd_def
      joinWith_def extractChildElements_def directArrays_def variableKeys_def)



section \<open>Semantic identifiers\<close>

lemma stringValued_iff: "stringValued k \<longleftrightarrow> (\<exists>v. getProp k ''value'' = Some (JStr v))"
  by (auto split: option.splits json.splits)

lemma find_first_stringValued:
  assumes "list_all (\<lambda>k. \<nexists>v. getProp k ''value'' = Some (JStr v)) before"
    and "getProp entry ''value'' = Some (JStr X)"
  shows "find stringValued (before @ entry # after) = Some entry"
  using assms
proof (induction before)
  case Nil
  then show ?case by (simp add: stringValued_iff del: stringValued.simps)
next
  case (Cons k ks)
  then show ?case by (simp add: stringValued_iff del: stringValued.simps)
qed

lemma getSemanticIdValue_form:
  assumes "X \<noteq> []" and "isSemanticIdForm X sid"
  shows "getSemanticIdValue (Some sid) = Some X"
proof -
  from assms(2) consider "sid = JStr X"
    | kvs where "sid = JObj kvs" "map_of kvs ''value'' = Some (JStr X)"
    | kvs before entry after where "sid = JObj kvs"
        "\<nexists>v. map_of kvs ''value'' = Some (JStr v)"
        "map_of kvs ''keys'' = Some (JArr (before @ entry # after))"
        "list_all (\<lambda>k. \<nexists>v. getProp k ''value'' = Some (JStr v)) before"
        "getProp entry ''value'' = Some (JStr X)"
    unfolding isSemanticIdForm_def by blast
  then show ?thesis
  proof cases
    case 1
    with assms(1) show ?thesis by (simp add: getSemanticIdValue_def)
  next
    case 2
    then show ?thesis by (simp add: getSemanticIdValue_def)
  next
    case 3
    from find_first_stringValued [OF 3(4) 3(5)]
    have f: "find stringValued (before @ entry # after) = Some entry" .
    from 3(2) have "(case map_of kvs ''value'' of Some (JStr v) \<Rightarrow> Some v | _ \<Rightarrow> d) = d" for d :: "string option"
      by (auto split: option.splits json.splits)
    with 3(1,3,5) f show ?thesis
      by (simp add: getSemanticIdValue_def)
  qed
qed

lemma indexSubmodel_new:
  assumes "getSemanticIdValue (getProp tmpl ''semanticId'') = Some X" and "X \<noteq> []"
    and "map_of index X = None"
  shows "\<exists>spec. map_of (indexSubmodel file index tmpl) X = Some spec \<and> tmplId spec = X
              \<and> sourcePath spec = file"
  using assms by (simp add: indexSubmodel_def Let_def map_add_def)

text \<open>
  Claim C5, as the code has it. For an identifier \<open>X\<close> that is not the empty string, the
  extraction maps each of the three forms of \<open>X\<close> to \<open>X\<close>; so a template submodel whose
  semantic identifier is in one form is indexed under \<open>X\<close>, and an instance submodel whose
  semantic identifier is in any of the forms is matched with it.
\<close>

theorem getSemanticIdValue_forms:
  "(X \<noteq> [] \<and> isSemanticIdForm X sid \<longrightarrow> getSemanticIdValue (Some sid) = Some X)
   \<and> (X \<noteq> [] \<and> isSemanticIdForm X sidT \<and> isSemanticIdForm X sidI \<and>
       getProp tmpl ''semanticId'' = Some sidT \<and> getProp inst ''semanticId'' = Some sidI \<and>
       map_of index X = None
      \<longrightarrow> (\<exists>spec. matchedTemplate (indexSubmodel origin index tmpl) inst = Some spec \<and>
                  tmplId spec = X \<and> sourcePath spec = origin))"
proof (intro conjI impI)
  assume "X \<noteq> [] \<and> isSemanticIdForm X sid"
  then show "getSemanticIdValue (Some sid) = Some X"
    using getSemanticIdValue_form by blast
next
  assume a: "X \<noteq> [] \<and> isSemanticIdForm X sidT \<and> isSemanticIdForm X sidI \<and>
       getProp tmpl ''semanticId'' = Some sidT \<and> getProp inst ''semanticId'' = Some sidI \<and>
       map_of index X = None"
  then have t: "getSemanticIdValue (getProp tmpl ''semanticId'') = Some X"
    and i: "getSemanticIdValue (getProp inst ''semanticId'') = Some X"
    using getSemanticIdValue_form by simp_all
  from a i have "matchedTemplate (indexSubmodel origin index tmpl) inst
                 = map_of (indexSubmodel origin index tmpl) X"
    by (simp add: matchedTemplate_def)
  with indexSubmodel_new [OF t, of index origin] a
  show "\<exists>spec. matchedTemplate (indexSubmodel origin index tmpl) inst = Some spec \<and>
                  tmplId spec = X \<and> sourcePath spec = origin"
    by simp
qed

lemma sample_forms:
  "isSemanticIdForm ''urn:t'' (JStr ''urn:t'')
   \<and> isSemanticIdForm ''urn:t'' (JObj [(''value'', JStr ''urn:t'')])
   \<and> isSemanticIdForm ''urn:t''
       (JObj [(''type'', JStr ''ExternalReference''),
              (''keys'', JArr [JObj [(''type'', JStr ''GlobalReference'')],
                               JObj [(''value'', JStr ''urn:t'')]])])"
proof (intro conjI)
  show "isSemanticIdForm ''urn:t'' (JStr ''urn:t'')"
    by (simp add: isSemanticIdForm_def)
  show "isSemanticIdForm ''urn:t'' (JObj [(''value'', JStr ''urn:t'')])"
    by (simp add: isSemanticIdForm_def)
  have "\<exists>before entry after.
          [JObj [(''type'', JStr ''GlobalReference'')], JObj [(''value'', JStr ''urn:t'')]]
            = before @ entry # after \<and>
          list_all (\<lambda>k. \<nexists>v. getProp k ''value'' = Some (JStr v)) before \<and>
          getProp entry ''value'' = Some (JStr ''urn:t'')"
    by (intro exI [of _ "[JObj [(''type'', JStr ''GlobalReference'')]]"]
              exI [of _ "JObj [(''value'', JStr ''urn:t'')]"] exI [of _ "[]"]) simp
  then show "isSemanticIdForm ''urn:t''
       (JObj [(''type'', JStr ''ExternalReference''),
              (''keys'', JArr [JObj [(''type'', JStr ''GlobalReference'')],
                               JObj [(''value'', JStr ''urn:t'')]])])"
    by (simp add: isSemanticIdForm_def)
qed

text \<open>The theorem at the identifier \<^verbatim>\<open>urn:t\<close> in its three forms.\<close>

theorem getSemanticIdValue_forms_witness:
  "getSemanticIdValue (Some (JStr ''urn:t'')) = Some ''urn:t''
   \<and> getSemanticIdValue (Some (JObj [(''value'', JStr ''urn:t'')])) = Some ''urn:t''
   \<and> getSemanticIdValue
        (Some (JObj [(''type'', JStr ''ExternalReference''),
                     (''keys'', JArr [JObj [(''type'', JStr ''GlobalReference'')],
                                      JObj [(''value'', JStr ''urn:t'')]])])) = Some ''urn:t''
   \<and> (\<exists>spec. matchedTemplate
                (indexSubmodel ''/t/t.json'' [] (JObj [(''semanticId'', JStr ''urn:t'')]))
                sampleInstance = Some spec
             \<and> tmplId spec = ''urn:t'' \<and> sourcePath spec = ''/t/t.json'')"
proof -
  have ne: "''urn:t'' \<noteq> []" by simp
  have inst: "isSemanticIdForm ''urn:t''
                (JObj [(''keys'', JArr [JObj [(''value'', JStr ''urn:t'')]])])"
  proof -
    have "\<exists>before entry after.
            [JObj [(''value'', JStr ''urn:t'')]] = before @ entry # after \<and>
            list_all (\<lambda>k. \<nexists>v. getProp k ''value'' = Some (JStr v)) before \<and>
            getProp entry ''value'' = Some (JStr ''urn:t'')"
      by (intro exI [of _ "[]"] exI [of _ "JObj [(''value'', JStr ''urn:t'')]"]) simp
    then show ?thesis by (simp add: isSemanticIdForm_def)
  qed
  have props: "getProp (JObj [(''semanticId'', JStr ''urn:t'')]) ''semanticId''
                 = Some (JStr ''urn:t'')
               \<and> getProp sampleInstance ''semanticId''
                 = Some (JObj [(''keys'', JArr [JObj [(''value'', JStr ''urn:t'')]])])
               \<and> map_of ([] :: (string \<times> TemplateSpec) list) ''urn:t'' = None"
    by (simp add: sampleInstance_def)
  note t = getSemanticIdValue_forms [where X = "''urn:t''"]
  from t [where sid = "JStr ''urn:t''"] sample_forms ne
  have a: "getSemanticIdValue (Some (JStr ''urn:t'')) = Some ''urn:t''" by blast
  from t [where sid = "JObj [(''value'', JStr ''urn:t'')]"] sample_forms ne
  have b: "getSemanticIdValue (Some (JObj [(''value'', JStr ''urn:t'')])) = Some ''urn:t''"
    by blast
  from t [where sid = "JObj [(''type'', JStr ''ExternalReference''),
                     (''keys'', JArr [JObj [(''type'', JStr ''GlobalReference'')],
                                      JObj [(''value'', JStr ''urn:t'')]])]"] sample_forms ne
  have c: "getSemanticIdValue
        (Some (JObj [(''type'', JStr ''ExternalReference''),
                     (''keys'', JArr [JObj [(''type'', JStr ''GlobalReference'')],
                                      JObj [(''value'', JStr ''urn:t'')]])])) = Some ''urn:t''"
    by blast
  from t [where sidT = "JStr ''urn:t''"
            and sidI = "JObj [(''keys'', JArr [JObj [(''value'', JStr ''urn:t'')]])]"
            and tmpl = "JObj [(''semanticId'', JStr ''urn:t'')]" and inst = sampleInstance
            and index = "[]" and origin = "''/t/t.json''"]
       sample_forms inst props ne
  have d: "\<exists>spec. matchedTemplate
                (indexSubmodel ''/t/t.json'' [] (JObj [(''semanticId'', JStr ''urn:t'')]))
                sampleInstance = Some spec
             \<and> tmplId spec = ''urn:t'' \<and> sourcePath spec = ''/t/t.json''"
    by blast
  from a b c d show ?thesis by blast
qed

text \<open>
  For the empty string claim C5 fails: the extraction answers \<^verbatim>\<open>undefined\<close> for every falsy
  value, so the bare empty string and the object whose \<^verbatim>\<open>value\<close> is the empty string are
  not mapped to the same result.
\<close>

theorem getSemanticIdValue_empty_counterexample:
  "isSemanticIdForm [] (JStr []) \<and> isSemanticIdForm [] (JObj [(''value'', JStr [])])
   \<and> getSemanticIdValue (Some (JStr [])) = None
   \<and> getSemanticIdValue (Some (JObj [(''value'', JStr [])])) = Some []"
  by (simp add: isSemanticIdForm_def getSemanticIdValue_def)

section \<open>The template engine on XML files, the index and the rule identifiers\<close>

lemma loadEnvironment_xml:
  "toLowerCase (extname xmlFile) = ''.xml'' \<Longrightarrow> loadEnvironment rt xmlFile = Inr None"
  by (simp add: loadEnvironment_def)

text \<open>
  Claim C10. For a path whose extension is \<^verbatim>\<open>.xml\<close> up to case, the capability check of
  the template engine answers true, the environment loader yields nothing, and
  \<^verbatim>\<open>validate\<close> returns no finding whenever a template directory is resolved, whatever
  the index holds: an XML document is never compared with a template.
\<close>

theorem xml_never_template_checked:
  "toLowerCase (extname xmlFile) = ''.xml'' \<longrightarrow>
     templateCanValidate xmlFile \<and> loadEnvironment rt xmlFile = Inr None \<and>
     (truthyString (resolveTemplateDir rt config options)
        \<longrightarrow> fst (templateValidate rt options st xmlFile config) = Inr [])"
proof (intro impI conjI)
  assume x: "toLowerCase (extname xmlFile) = ''.xml''"
  then show "templateCanValidate xmlFile"
    by (simp add: templateCanValidate_def)
  from x show env: "loadEnvironment rt xmlFile = Inr None"
    by (rule loadEnvironment_xml)
  assume "truthyString (resolveTemplateDir rt config options)"
  then show "fst (templateValidate rt options st xmlFile config) = Inr []"
    using env by (simp add: templateValidate_def Let_def)
qed

lemma sample_paths_a:
  "collectTemplatePaths [JObj [(''idShort'', JStr ''OnlyInA'')]]
   = \<lparr>idShort = [''OnlyInA''], semantic = []\<rparr>"
  by (simp add: collectTemplatePaths_def emptyPathSets_def Let_def isRequired_def
      elementIdShort_def getSemanticIdValue_def extendPath_def addPath_def setAdd_def
      joinWith_def extractChildElements_def directArrays_def variableKeys_def)

lemma sample_paths_b:
  "collectTemplatePaths [JObj [(''idShort'', JStr ''OnlyInB'')]]
   = \<lparr>idShort = [''OnlyInB''], semantic = []\<rparr>"
  by (simp add: collectTemplatePaths_def emptyPathSets_def Let_def isRequired_def
      elementIdShort_def getSemanticIdValue_def extendPath_def addPath_def setAdd_def
      joinWith_def extractChildElements_def directArrays_def variableKeys_def)

lemma sample_index_ab:
  "loadTemplates (sampleRuntime [''/tpl''] [''/tpl/a.json'', ''/tpl/b.json''] templateDocs)
     ''/tpl'' None
   = [(''urn:t'', \<lparr>tmplId = ''urn:t'', tmplName = Some (JStr ''A''),
                   requiredIdShortPaths = [''OnlyInA''], requiredSemanticPaths = [],
                   sourcePath = ''/tpl/a.json''\<rparr>)]"
  by (simp add: loadTemplates_def sampleRuntime_def templateDocs_def indexFile_def
      indexSubmodel_def getSemanticIdValue_def sample_paths_a sample_paths_b Let_def)

lemma sample_index_ba:
  "loadTemplates (sampleRuntime [''/tpl''] [''/tpl/b.json'', ''/tpl/a.json''] templateDocs)
     ''/tpl'' None
   = [(''urn:t'', \<lparr>tmplId = ''urn:t'', tmplName = Some (JStr ''B''),
                   requiredIdShortPaths = [''OnlyInB''], requiredSemanticPaths = [],
                   sourcePath = ''/tpl/b.json''\<rparr>)]"
  by (simp add: loadTemplates_def sampleRuntime_def templateDocs_def indexFile_def
      indexSubmodel_def getSemanticIdValue_def sample_paths_a sample_paths_b Let_def)

lemma sample_resolved:
  "resolveTemplateDir (sampleRuntime [''/tpl''] globbed docs) templateConfig noOptions
   = Some ''/tpl''"
  by (simp add: resolveTemplateDir_def resolveTemplateRoot_def sampleRuntime_def
      templateConfig_def sampleConfig_def noOptions_def joinWith_def)

text \<open>The theorem at an XML file, with a template directory whose index is not empty.\<close>

theorem xml_never_template_checked_witness:
  "templateCanValidate ''/r/i.XML''
   \<and> fst (templateValidate
             (sampleRuntime [''/tpl''] [''/tpl/a.json'', ''/tpl/b.json''] templateDocs)
             noOptions initialState ''/r/i.XML'' templateConfig) = Inr []
   \<and> loadTemplates (sampleRuntime [''/tpl''] [''/tpl/a.json'', ''/tpl/b.json''] templateDocs)
         ''/tpl'' None \<noteq> []"
proof -
  have x: "toLowerCase (extname ''/r/i.XML'') = ''.xml''"
    by (simp add: extname_def toLowerCase_def toLowerChar_def)
  have r: "truthyString (resolveTemplateDir
             (sampleRuntime [''/tpl''] [''/tpl/a.json'', ''/tpl/b.json''] templateDocs)
             templateConfig noOptions)"
    by (simp add: sample_resolved)
  from xml_never_template_checked [of "''/r/i.XML''"
         "sampleRuntime [''/tpl''] [''/tpl/a.json'', ''/tpl/b.json''] templateDocs"
         templateConfig noOptions initialState] x r
  show ?thesis
    by (simp add: sample_index_ab)
qed

text \<open>
  Within one enumeration the first template registered for a semantic identifier stays:
  no later submodel or file changes an entry of the index.
\<close>

lemma indexSubmodel_keeps:
  "map_of index X = Some t \<Longrightarrow> map_of (indexSubmodel origin index submodel) X = Some t"
  by (auto simp: indexSubmodel_def Let_def map_add_def split: option.splits)

lemma foldl_indexSubmodel_keeps:
  "map_of index X = Some t
   \<Longrightarrow> map_of (foldl (indexSubmodel origin) index submodels) X = Some t"
  by (induction submodels arbitrary: index) (simp_all add: indexSubmodel_keeps)

lemma indexFile_keeps:
  "map_of index X = Some t \<Longrightarrow> map_of (indexFile rt v index origin) X = Some t"
  by (simp add: indexFile_def foldl_indexSubmodel_keeps split: option.splits)

lemma foldl_indexFile_keeps:
  "map_of index X = Some t \<Longrightarrow> map_of (foldl (indexFile rt v) index files) X = Some t"
  by (induction files arbitrary: index) (simp_all add: indexFile_keeps)

text \<open>
  Claim C7 at two files that define the same semantic identifier. The index is built in
  the order the glob enumerates the files, which \<^verbatim>\<open>loadTemplates\<close> does not sort: enumerated
  as \<^verbatim>\<open>a.json\<close>, \<^verbatim>\<open>b.json\<close> the template of \<^verbatim>\<open>a.json\<close> is indexed, and in the other order
  that of \<^verbatim>\<open>b.json\<close>, with another set of required paths.
\<close>

theorem loadTemplates_depends_on_enumeration:
  "map (\<lambda>entry. (fst entry, sourcePath (snd entry), requiredIdShortPaths (snd entry)))
     (loadTemplates (sampleRuntime [''/tpl''] [''/tpl/a.json'', ''/tpl/b.json''] templateDocs)
        ''/tpl'' None)
   = [(''urn:t'', ''/tpl/a.json'', [''OnlyInA''])]
   \<and> map (\<lambda>entry. (fst entry, sourcePath (snd entry), requiredIdShortPaths (snd entry)))
       (loadTemplates (sampleRuntime [''/tpl''] [''/tpl/b.json'', ''/tpl/a.json''] templateDocs)
          ''/tpl'' None)
     = [(''urn:t'', ''/tpl/b.json'', [''OnlyInB''])]"
  by (simp add: sample_index_ab sample_index_ba)

lemma segments_missing: "segments ''template-conformance/missing-element''
                         = [''template-conformance'', ''missing-element'']"
  by (simp add: segments_def)

lemma segments_notFound: "segments ''template-conformance/templates-not-found''
                         = [''template-conformance'', ''templates-not-found'']"
  by (simp add: segments_def)

text \<open>
  Claim C9 at the findings of the template engine. Both of its rule identifiers have two
  segments, the engine name and a code, and no category between them; so have the
  findings of the sample instance.
\<close>

theorem template_ruleIds_have_two_segments:
  "segments (ruleId (templatesNotFound anyFile))
     = [''template-conformance'', ''templates-not-found'']
   \<and> segments (ruleId (missingElement template baseLocation requiredPath))
     = [''template-conformance'', ''missing-element'']
   \<and> map (\<lambda>f. length (segments (ruleId f)))
       (checkSubmodel [(''urn:t'', sampleTemplate)] ''/r/i.json'' None 0 sampleInstance)
     = [2, 2]"
proof -
  have "checkSubmodel [(''urn:t'', sampleTemplate)] ''/r/i.json'' None 0 sampleInstance
        = map (missingElement sampleTemplate
                 \<lparr>filePath = ''/r/i.json'', internalPath = None,
                  jsonPointer = Some (''/submodels/'' @ showNat 0), line = None,
                  column = None\<rparr>) [''X'', ''urn:s'']"
    unfolding checkSubmodel_def sample_matched
    by (simp add: sample_instancePaths Let_def sampleTemplate_def)
  then show ?thesis
    by (simp add: templatesNotFound_def missingElement_def engineName_def segments_missing
        segments_notFound)
qed

end
